theory Spec2Isabelle
  imports Main "HOL-Library.Word"
begin

section \<open>The todo screen of \<^verbatim>\<open>src/app/(tabs)/index.tsx\<close>\<close>

text \<open>
  The screen is one React component, \<^verbatim>\<open>HomeScreen\<close>. It keeps three pieces of React
  state (\<^verbatim>\<open>todos\<close>, \<^verbatim>\<open>inputText\<close>, \<^verbatim>\<open>loading\<close>), opens one Firestore live query in
  an effect, and has four handlers: \<^verbatim>\<open>createTodo\<close>, \<^verbatim>\<open>toggleTodo\<close>, \<^verbatim>\<open>deleteTodo\<close>
  and \<^verbatim>\<open>handleLogout\<close>.

  The embedding is explicit state passing with exceptions. A handler is a function from
  the world (the React state, the listeners registered with the store, and the trace of
  effects issued so far) to a result and a new world. The result is \<open>Return\<close> or
  \<open>Throw\<close>, so that \<^verbatim>\<open>try\<close>/\<^verbatim>\<open>catch\<close> is a combinator and an error that escapes a
  handler is a value one can see. Firestore, the auth context, \<^verbatim>\<open>Alert\<close> and the clock
  are not code of this file: what they answer is a parameter (\<open>env\<close>, the user's choice
  in a dialog, the time \<open>now\<close>), and what the component asks of them is recorded in the
  trace. An \<^verbatim>\<open>async\<close> handler is run to its end in one step. The \<^verbatim>\<open>console.log\<close> of
  each render (line 77) and the styles are left out.
\<close>

subsection \<open>JavaScript values\<close>

text \<open>
  A JavaScript string is a sequence of 16-bit code units. \<^verbatim>\<open>String.prototype.trim\<close> is
  a built-in: it removes the leading and trailing code units that ECMAScript calls
  WhiteSpace or LineTerminator, listed in \<open>isWhiteSpace\<close>.
\<close>

type_synonym jsstring = "16 word list"

definition isWhiteSpace :: "16 word \<Rightarrow> bool" where
  "isWhiteSpace c \<longleftrightarrow>
     c \<in> {0x0009, 0x000A, 0x000B, 0x000C, 0x000D, 0x0020, 0x00A0, 0x1680,
          0x2000, 0x2001, 0x2002, 0x2003, 0x2004, 0x2005, 0x2006, 0x2007,
          0x2008, 0x2009, 0x200A, 0x2028, 0x2029, 0x202F, 0x205F, 0x3000, 0xFEFF}"

definition trim :: "jsstring \<Rightarrow> jsstring" where
  "trim s = rev (dropWhile isWhiteSpace (rev (dropWhile isWhiteSpace s)))"

text \<open>
  Field values of a document or an object. \<open>JDate\<close> is a \<^verbatim>\<open>Date\<close>, in milliseconds
  since the epoch. An object (a document's data, an update payload, an element of
  \<^verbatim>\<open>todos\<close>) is a finite map from field names to values.
\<close>

datatype jsval = JStr jsstring | JBool bool | JDate int | JNum int | JNull

type_synonym fields = "string \<rightharpoonup> jsval"

datatype jserror = JsError string

datatype 'a result = Return 'a | Throw jserror

subsection \<open>What the component asks of its collaborators\<close>

text \<open>
  \<open>DocRef c i\<close> is the reference \<^verbatim>\<open>doc(db, c, i)\<close>; \<open>Query c f d\<close> is
  \<^verbatim>\<open>query(collection(db, c), orderBy(f, d))\<close>. A \<open>request\<close> is a call that returns a
  promise: the three Firestore mutations and the auth context's \<^verbatim>\<open>logout\<close>.
\<close>

datatype docref = DocRef string jsstring

datatype direction = Asc | Desc

datatype query = Query string string direction

datatype request =
    AddDoc string fields
  | UpdateDoc docref fields
  | DeleteDoc docref
  | Logout

datatype button_style = StyleDefault | StyleCancel | StyleDestructive

datatype effect =
    ConsoleError string jserror
  | Alert string string "(string \<times> button_style) list"
  | Call request
  | Subscribe query nat
  | Unsubscribe nat

text \<open>
  The environment decides which calls fail and with which error: \<open>doc_throws\<close> for the
  synchronous \<^verbatim>\<open>doc(...)\<close> (it throws on a malformed path), \<open>rejects\<close> for a promise
  that rejects. \<open>None\<close> is success.
\<close>

record env =
  doc_throws :: "string \<Rightarrow> jsstring \<Rightarrow> jserror option"
  rejects :: "request \<Rightarrow> jserror option"

text \<open>A document of a query snapshot: \<^verbatim>\<open>doc.id\<close> and \<^verbatim>\<open>doc.data()\<close>.\<close>

record docsnap =
  doc_id :: jsstring
  doc_data :: fields

subsection \<open>The world and the combinators\<close>

record world =
  todos :: "fields list"
  inputText :: jsstring
  loading :: bool
  listeners :: "nat list"
  trace :: "effect list"

text \<open>The state of a component that has just been created (the \<^verbatim>\<open>useState\<close> defaults).\<close>

definition initial :: world where
  "initial = \<lparr>todos = [], inputText = [], loading = True, listeners = [], trace = []\<rparr>"

type_synonym 'a prog = "world \<Rightarrow> 'a result \<times> world"

definition return_p :: "'a \<Rightarrow> 'a prog" where
  "return_p x = (\<lambda>w. (Return x, w))"

definition bind_p :: "'a prog \<Rightarrow> ('a \<Rightarrow> 'b prog) \<Rightarrow> 'b prog" where
  "bind_p m f = (\<lambda>w. case m w of
                        (Return x, w') \<Rightarrow> f x w'
                      | (Throw e, w') \<Rightarrow> (Throw e, w'))"

definition try_catch :: "'a prog \<Rightarrow> (jserror \<Rightarrow> 'a prog) \<Rightarrow> 'a prog" where
  "try_catch m h = (\<lambda>w. case m w of
                           (Return x, w') \<Rightarrow> (Return x, w')
                         | (Throw e, w') \<Rightarrow> h e w')"

definition emit :: "effect \<Rightarrow> unit prog" where
  "emit x = (\<lambda>w. (Return (), w\<lparr>trace := trace w @ [x]\<rparr>))"

definition setTodos :: "fields list \<Rightarrow> unit prog" where
  "setTodos v = (\<lambda>w. (Return (), w\<lparr>todos := v\<rparr>))"

definition setInputText :: "jsstring \<Rightarrow> unit prog" where
  "setInputText v = (\<lambda>w. (Return (), w\<lparr>inputText := v\<rparr>))"

definition setLoading :: "bool \<Rightarrow> unit prog" where
  "setLoading v = (\<lambda>w. (Return (), w\<lparr>loading := v\<rparr>))"

definition console_error :: "string \<Rightarrow> jserror \<Rightarrow> unit prog" where
  "console_error msg e = emit (ConsoleError msg e)"

text \<open>
  \<^verbatim>\<open>await f(...)\<close> on a promise: the call is issued, and a rejection is thrown at the
  \<^verbatim>\<open>await\<close>.
\<close>

definition await :: "env \<Rightarrow> request \<Rightarrow> unit prog" where
  "await E r = bind_p (emit (Call r))
     (\<lambda>_ w. case rejects E r of None \<Rightarrow> (Return (), w) | Some e \<Rightarrow> (Throw e, w))"

definition doc :: "env \<Rightarrow> string \<Rightarrow> jsstring \<Rightarrow> docref prog" where
  "doc E c i = (\<lambda>w. case doc_throws E c i of
                       None \<Rightarrow> (Return (DocRef c i), w)
                     | Some e \<Rightarrow> (Throw e, w))"

definition addDoc :: "env \<Rightarrow> string \<Rightarrow> fields \<Rightarrow> unit prog" where
  "addDoc E c d = await E (AddDoc c d)"

definition updateDoc :: "env \<Rightarrow> docref \<Rightarrow> fields \<Rightarrow> unit prog" where
  "updateDoc E r d = await E (UpdateDoc r d)"

definition deleteDoc :: "env \<Rightarrow> docref \<Rightarrow> unit prog" where
  "deleteDoc E r = await E (DeleteDoc r)"

definition logout :: "env \<Rightarrow> unit prog" where
  "logout E = await E Logout"

text \<open>
  \<^verbatim>\<open>Alert.alert(title, message)\<close> shows a modal alert with the default button.
  \<^verbatim>\<open>Alert.alert(title, message, buttons)\<close> shows the buttons; pressing one runs its
  \<^verbatim>\<open>onPress\<close>, if it has one. The user's \<open>choice\<close> is the index of the button pressed,
  or \<open>None\<close> when the dialog is dismissed without a button.
\<close>

record button =
  label :: string
  style :: button_style
  onPress :: "unit prog option"

definition alert :: "string \<Rightarrow> string \<Rightarrow> unit prog" where
  "alert title message = emit (Alert title message [])"

definition alert_buttons :: "string \<Rightarrow> string \<Rightarrow> button list \<Rightarrow> nat option \<Rightarrow> unit prog" where
  "alert_buttons title message buttons choice =
     bind_p (emit (Alert title message (map (\<lambda>b. (label b, style b)) buttons)))
       (\<lambda>_. case choice of
               None \<Rightarrow> return_p ()
             | Some n \<Rightarrow>
                 if n < length buttons
                 then (case onPress (buttons ! n) of None \<Rightarrow> return_p () | Some h \<Rightarrow> h)
                 else return_p ())"

subsection \<open>The live query (lines 53 to 75)\<close>

text \<open>
  \<^verbatim>\<open>onSnapshot(q, next, error)\<close> registers a listener with the store and returns the
  function that removes it; the listener is named by a handle that is not in use.
  \<^verbatim>\<open>useEffect(f, [])\<close> runs \<open>f\<close> once, when the component is mounted (\<open>mount\<close>), and
  when the component is unmounted it runs the function that \<open>f\<close> returned, here
  \<^verbatim>\<open>() => unsubscribe()\<close> (\<open>unmount\<close>, given the handle).
\<close>

definition todosCollection :: string where
  "todosCollection = ''todos''"

definition fresh :: "nat list \<Rightarrow> nat" where
  "fresh hs = Suc (fold max hs 0)"

definition onSnapshot :: "query \<Rightarrow> nat prog" where
  "onSnapshot q = (\<lambda>w. let h = fresh (listeners w)
                        in (Return h, w\<lparr>listeners := h # listeners w,
                                         trace := trace w @ [Subscribe q h]\<rparr>))"

definition unsubscribe :: "nat \<Rightarrow> unit prog" where
  "unsubscribe h = (\<lambda>w. (Return (), w\<lparr>listeners := removeAll h (listeners w),
                                         trace := trace w @ [Unsubscribe h]\<rparr>))"

definition mount :: "nat prog" where
  "mount = onSnapshot (Query todosCollection ''createdAt'' Desc)"

definition unmount :: "nat \<Rightarrow> unit prog" where
  "unmount h = unsubscribe h"

text \<open>
  The snapshot callback. In \<^verbatim>\<open>{ id: doc.id, ...doc.data() }\<close> the spread comes after
  \<^verbatim>\<open>id\<close>, so a field of the data overrides a property written before it: \<open>++\<close> with
  the data on the right.
\<close>

definition todo_of_doc :: "docsnap \<Rightarrow> fields" where
  "todo_of_doc d = [''id'' \<mapsto> JStr (doc_id d)] ++ doc_data d"

definition onNext :: "docsnap list \<Rightarrow> unit prog" where
  "onNext docs =
     bind_p (setTodos (map todo_of_doc docs)) (\<lambda>_. setLoading False)"

definition onError :: "jserror \<Rightarrow> unit prog" where
  "onError error =
     bind_p (console_error ''Error fetching todos:'' error)
       (\<lambda>_. bind_p (alert ''Error'' ''Failed to load todos'')
         (\<lambda>_. setLoading False))"

subsection \<open>The handlers (lines 80 to 150)\<close>

definition createTodo :: "env \<Rightarrow> int \<Rightarrow> unit prog" where
  "createTodo E now = (\<lambda>w.
     if trim (inputText w) = [] then alert ''Error'' ''Please enter a todo item'' w
     else try_catch
            (bind_p (addDoc E todosCollection
                       [''text'' \<mapsto> JStr (trim (inputText w)),
                        ''completed'' \<mapsto> JBool False,
                        ''createdAt'' \<mapsto> JDate now])
               (\<lambda>_. setInputText []))
            (\<lambda>error. bind_p (console_error ''Error adding todo:'' error)
               (\<lambda>_. alert ''Error'' ''Failed to add todo''))
            w)"

definition toggleTodo :: "env \<Rightarrow> jsstring \<Rightarrow> bool \<Rightarrow> unit prog" where
  "toggleTodo E i completed =
     try_catch
       (bind_p (doc E ''todos'' i)
          (\<lambda>todoDoc. updateDoc E todoDoc [''completed'' \<mapsto> JBool (\<not> completed)]))
       (\<lambda>error. bind_p (console_error ''Error updating todo:'' error)
          (\<lambda>_. alert ''Error'' ''Failed to update todo''))"

definition deleteTodo :: "env \<Rightarrow> jsstring \<Rightarrow> nat option \<Rightarrow> unit prog" where
  "deleteTodo E i choice =
     alert_buttons ''Delete Todo'' ''Are you sure you want to delete this todo?''
       [\<lparr>label = ''Cancel'', style = StyleCancel, onPress = None\<rparr>,
        \<lparr>label = ''Delete'', style = StyleDestructive,
         onPress = Some
           (try_catch
              (bind_p (doc E ''todos'' i) (\<lambda>todoDoc. deleteDoc E todoDoc))
              (\<lambda>error. bind_p (console_error ''Error deleting todo:'' error)
                 (\<lambda>_. alert ''Error'' ''Failed to delete todo'')))\<rparr>]
       choice"

definition handleLogout :: "env \<Rightarrow> nat option \<Rightarrow> unit prog" where
  "handleLogout E choice =
     alert_buttons ''Logout'' ''Are you sure you want to logout?''
       [\<lparr>label = ''Cancel'', style = StyleCancel, onPress = None\<rparr>,
        \<lparr>label = ''Logout'', style = StyleDestructive,
         onPress = Some
           (try_catch
              (logout E)
              (\<lambda>error. bind_p (console_error ''Error logging out:'' error)
                 (\<lambda>_. alert ''Error'' ''Logout failed'')))\<rparr>]
       choice"

subsection \<open>What is rendered (lines 179 to 224)\<close>

datatype view = LoadingView | EmptyView | TodoList "fields list"

definition render :: "world \<Rightarrow> view" where
  "render w = (if loading w then LoadingView
               else if todos w = [] then EmptyView
               else TodoList (todos w))"

subsection \<open>The component's life\<close>

text \<open>
  What can happen to a mounted component: the store delivers a snapshot or an error to
  the listener, the user edits the input (\<^verbatim>\<open>onChangeText={setInputText}\<close>), or presses
  a button. A press carries what the environment contributes to the handler: the time
  for \<^verbatim>\<open>new Date()\<close>, the user's choice in the dialog. A handler's result is dropped:
  nothing awaits it.
\<close>

datatype event =
    Snapshot "docsnap list"
  | SnapshotError jserror
  | ChangeText jsstring
  | PressAdd int
  | PressToggle jsstring bool
  | PressDelete jsstring "nat option"
  | PressLogout "nat option"

fun dispatch :: "env \<Rightarrow> event \<Rightarrow> unit prog" where
  "dispatch E (Snapshot docs) = onNext docs"
| "dispatch E (SnapshotError e) = onError e"
| "dispatch E (ChangeText s) = setInputText s"
| "dispatch E (PressAdd now) = createTodo E now"
| "dispatch E (PressToggle i completed) = toggleTodo E i completed"
| "dispatch E (PressDelete i choice) = deleteTodo E i choice"
| "dispatch E (PressLogout choice) = handleLogout E choice"

fun run :: "env \<Rightarrow> event list \<Rightarrow> world \<Rightarrow> world" where
  "run E [] w = w"
| "run E (ev # evs) w = run E evs (snd (dispatch E ev w))"

definition mounted :: "env \<Rightarrow> event list \<Rightarrow> world \<Rightarrow> world" where
  "mounted E evs w = run E evs (snd (mount w))"

definition lifetime :: "env \<Rightarrow> event list \<Rightarrow> world \<Rightarrow> world" where
  "lifetime E evs w =
     (case mount w of
        (Return h, w1) \<Rightarrow> snd (unmount h (run E evs w1))
      | (Throw e, w1) \<Rightarrow> w1)"

subsection \<open>Observations\<close>

text \<open>
  The effects a step added to the trace, the requests among them, the alerts among them
  (what the user is shown), and the openings and closings of listeners among them.
  \<open>same_state\<close> compares everything but the trace.
\<close>

definition issued :: "world \<Rightarrow> world \<Rightarrow> effect list" where
  "issued w w' = drop (length (trace w)) (trace w')"

fun calls :: "effect list \<Rightarrow> request list" where
  "calls [] = []"
| "calls (Call r # es) = r # calls es"
| "calls (_ # es) = calls es"

fun shown :: "effect list \<Rightarrow> effect list" where
  "shown [] = []"
| "shown (Alert t m bs # es) = Alert t m bs # shown es"
| "shown (_ # es) = shown es"

fun subscriptions :: "effect list \<Rightarrow> effect list" where
  "subscriptions [] = []"
| "subscriptions (Subscribe q h # es) = Subscribe q h # subscriptions es"
| "subscriptions (Unsubscribe h # es) = Unsubscribe h # subscriptions es"
| "subscriptions (_ # es) = subscriptions es"

definition same_state :: "world \<Rightarrow> world \<Rightarrow> bool" where
  "same_state w w' \<longleftrightarrow>
     todos w' = todos w \<and> inputText w' = inputText w \<and> loading w' = loading w \<and>
     listeners w' = listeners w"

text \<open>
  A rejected request \<open>r\<close> that is forgotten: the state is what it was, \<open>r\<close> is the only
  request of the run, and after it the user is shown the one alert with this message.
\<close>

definition forgotten :: "world \<Rightarrow> world \<Rightarrow> request \<Rightarrow> string \<Rightarrow> bool" where
  "forgotten w w' r message \<longleftrightarrow>
     same_state w w' \<and>
     (\<exists>pre post. issued w w' = pre @ Call r # post \<and> calls pre = [] \<and> calls post = [] \<and>
        shown post = [Alert ''Error'' message []])"

text \<open>
  A step that is quiet about listeners: the store's listeners are the same, and the
  effects added to the trace hold no \<open>Subscribe\<close> and no \<open>Unsubscribe\<close>.
\<close>

definition quiet :: "world \<Rightarrow> world \<Rightarrow> bool" where
  "quiet w w' \<longleftrightarrow>
     listeners w' = listeners w \<and> (\<exists>xs. trace w' = trace w @ xs \<and> subscriptions xs = [])"



text \<open>
  Newest first: every item's \<^verbatim>\<open>createdAt\<close> is at or after, in the order \<open>le\<close>, that of
  every item that follows it. The order on field values is the store's, so it is a
  parameter.
\<close>

definition newest_first :: "(jsval option \<Rightarrow> jsval option \<Rightarrow> bool) \<Rightarrow> fields list \<Rightarrow> bool" where
  "newest_first le xs = sorted_wrt (\<lambda>a b. le (b ''createdAt'') (a ''createdAt'')) xs"

text \<open>Names for the literals of the source: the two payloads and the two dialogs.\<close>

abbreviation (input) new_todo :: "world \<Rightarrow> int \<Rightarrow> fields" where
  "new_todo w now \<equiv> [''text'' \<mapsto> JStr (trim (inputText w)), ''completed'' \<mapsto> JBool False, ''createdAt'' \<mapsto> JDate now]"

abbreviation (input) toggle_payload :: "bool \<Rightarrow> fields" where
  "toggle_payload completed \<equiv> [''completed'' \<mapsto> JBool (\<not> completed)]"

abbreviation (input) delete_dialog :: effect where
  "delete_dialog \<equiv> Alert ''Delete Todo'' ''Are you sure you want to delete this todo?''
     [(''Cancel'', StyleCancel), (''Delete'', StyleDestructive)]"

abbreviation (input) logout_dialog :: effect where
  "logout_dialog \<equiv> Alert ''Logout'' ''Are you sure you want to logout?''
     [(''Cancel'', StyleCancel), (''Logout'', StyleDestructive)]"

subsection \<open>Examples\<close>

text \<open>
  Three environments: nothing fails; every request is rejected; \<^verbatim>\<open>doc\<close> throws. Two
  worlds: the user has typed a space and the letter a, or two spaces. A store that
  holds the todo \<^verbatim>\<open>a\<close>. Two snapshots: two todos, the newer first; and one document
  whose data has a field named \<^verbatim>\<open>id\<close>. \<open>date_le\<close> orders dates.
\<close>

definition accepting :: env where
  "accepting = \<lparr>doc_throws = (\<lambda>c i. None), rejects = (\<lambda>r. None)\<rparr>"

definition offline :: env where
  "offline = \<lparr>doc_throws = (\<lambda>c i. None), rejects = (\<lambda>r. Some (JsError ''unavailable''))\<rparr>"

definition malformed :: env where
  "malformed = \<lparr>doc_throws = (\<lambda>c i. Some (JsError ''invalid-argument'')), rejects = (\<lambda>r. None)\<rparr>"

definition typed :: world where
  "typed = initial\<lparr>inputText := [0x20, 0x61]\<rparr>"

definition blank :: world where
  "blank = initial\<lparr>inputText := [0x20, 0x20]\<rparr>"


definition two_docs :: "docsnap list" where
  "two_docs =
     [\<lparr>doc_id = [0x62],
       doc_data = [''text'' \<mapsto> JStr [0x79], ''completed'' \<mapsto> JBool False, ''createdAt'' \<mapsto> JDate 2000]\<rparr>,
      \<lparr>doc_id = [0x61],
       doc_data = [''text'' \<mapsto> JStr [0x78], ''completed'' \<mapsto> JBool True, ''createdAt'' \<mapsto> JDate 1000]\<rparr>]"

definition shadowing :: "docsnap list" where
  "shadowing =
     [\<lparr>doc_id = [0x61],
       doc_data = [''id'' \<mapsto> JStr [0x62], ''text'' \<mapsto> JStr [0x63],
                   ''completed'' \<mapsto> JBool False, ''createdAt'' \<mapsto> JDate 1700000000000]\<rparr>]"

fun date_le :: "jsval option \<Rightarrow> jsval option \<Rightarrow> bool" where
  "date_le (Some (JDate a)) (Some (JDate b)) = (a \<le> b)"
| "date_le _ _ = False"

section \<open>Running the handlers\<close>

text \<open>
  Each handler, run to its end, in every case of the environment: the result, the new
  state and the effects, in the order they are issued.
\<close>

lemma await_ok: "rejects E r = None \<Longrightarrow> await E r w = (Return (), w\<lparr>trace := trace w @ [Call r]\<rparr>)"
  by (simp add: await_def bind_p_def emit_def)

lemma await_fail: "rejects E r = Some e \<Longrightarrow> await E r w = (Throw e, w\<lparr>trace := trace w @ [Call r]\<rparr>)"
  by (simp add: await_def bind_p_def emit_def)

lemma createTodo_blank:
  "trim (inputText w) = [] \<Longrightarrow>
   createTodo E now w = (Return (), w\<lparr>trace := trace w @ [Alert ''Error'' ''Please enter a todo item'' []]\<rparr>)"
  by (simp add: createTodo_def alert_def emit_def)

lemma createTodo_ok:
  "trim (inputText w) \<noteq> [] \<Longrightarrow> rejects E (AddDoc ''todos'' (new_todo w now)) = None \<Longrightarrow>
   createTodo E now w = (Return (), w\<lparr>trace := trace w @ [Call (AddDoc ''todos'' (new_todo w now))], inputText := []\<rparr>)"
  by (simp add: createTodo_def todosCollection_def addDoc_def await_ok try_catch_def bind_p_def setInputText_def)

lemma createTodo_fail:
  "trim (inputText w) \<noteq> [] \<Longrightarrow> rejects E (AddDoc ''todos'' (new_todo w now)) = Some e \<Longrightarrow>
   createTodo E now w = (Return (), w\<lparr>trace := trace w @ [Call (AddDoc ''todos'' (new_todo w now)), ConsoleError ''Error adding todo:'' e, Alert ''Error'' ''Failed to add todo'' []]\<rparr>)"
  by (simp add: createTodo_def todosCollection_def addDoc_def await_fail try_catch_def bind_p_def setInputText_def console_error_def alert_def emit_def)

lemma toggleTodo_doc_throws:
  "doc_throws E ''todos'' i = Some e \<Longrightarrow>
   toggleTodo E i c w = (Return (), w\<lparr>trace := trace w @ [ConsoleError ''Error updating todo:'' e, Alert ''Error'' ''Failed to update todo'' []]\<rparr>)"
  by (simp add: toggleTodo_def doc_def try_catch_def bind_p_def console_error_def alert_def emit_def)

lemma toggleTodo_ok:
  "doc_throws E ''todos'' i = None \<Longrightarrow> rejects E (UpdateDoc (DocRef ''todos'' i) (toggle_payload c)) = None \<Longrightarrow>
   toggleTodo E i c w = (Return (), w\<lparr>trace := trace w @ [Call (UpdateDoc (DocRef ''todos'' i) (toggle_payload c))]\<rparr>)"
  by (simp add: toggleTodo_def doc_def updateDoc_def await_ok try_catch_def bind_p_def)

lemma toggleTodo_fail:
  "doc_throws E ''todos'' i = None \<Longrightarrow> rejects E (UpdateDoc (DocRef ''todos'' i) (toggle_payload c)) = Some e \<Longrightarrow>
   toggleTodo E i c w = (Return (), w\<lparr>trace := trace w @ [Call (UpdateDoc (DocRef ''todos'' i) (toggle_payload c)),
      ConsoleError ''Error updating todo:'' e, Alert ''Error'' ''Failed to update todo'' []]\<rparr>)"
  by (simp add: toggleTodo_def doc_def updateDoc_def await_fail try_catch_def bind_p_def console_error_def alert_def emit_def)

lemma alert_buttons_none:
  "choice = None \<or> choice = Some n \<and> (length bs \<le> n \<or> onPress (bs ! n) = None) \<Longrightarrow>
   alert_buttons t m bs choice w = (Return (), w\<lparr>trace := trace w @ [Alert t m (map (\<lambda>b. (label b, style b)) bs)]\<rparr>)"
  by (auto simp add: alert_buttons_def bind_p_def emit_def return_p_def)

lemma deleteTodo_unconfirmed:
  "choice \<noteq> Some 1 \<Longrightarrow> deleteTodo E i choice w = (Return (), w\<lparr>trace := trace w @ [delete_dialog]\<rparr>)"
proof (cases choice)
  case None
  then show ?thesis by (simp add: deleteTodo_def alert_buttons_none)
next
  case (Some n)
  assume "choice \<noteq> Some 1"
  with Some have "n = 0 \<or> 2 \<le> n" by auto
  with Some show ?thesis
    unfolding deleteTodo_def by (subst alert_buttons_none [where n = n]) auto
qed

lemma deleteTodo_doc_throws:
  "doc_throws E ''todos'' i = Some e \<Longrightarrow>
   deleteTodo E i (Some 1) w = (Return (), w\<lparr>trace := trace w @ [delete_dialog, ConsoleError ''Error deleting todo:'' e, Alert ''Error'' ''Failed to delete todo'' []]\<rparr>)"
  by (simp add: deleteTodo_def alert_buttons_def doc_def try_catch_def bind_p_def console_error_def alert_def emit_def)

lemma deleteTodo_ok:
  "doc_throws E ''todos'' i = None \<Longrightarrow> rejects E (DeleteDoc (DocRef ''todos'' i)) = None \<Longrightarrow>
   deleteTodo E i (Some 1) w = (Return (), w\<lparr>trace := trace w @ [delete_dialog, Call (DeleteDoc (DocRef ''todos'' i))]\<rparr>)"
  by (simp add: deleteTodo_def alert_buttons_def doc_def deleteDoc_def await_ok try_catch_def bind_p_def emit_def)

lemma deleteTodo_fail:
  "doc_throws E ''todos'' i = None \<Longrightarrow> rejects E (DeleteDoc (DocRef ''todos'' i)) = Some e \<Longrightarrow>
   deleteTodo E i (Some 1) w = (Return (), w\<lparr>trace := trace w @ [delete_dialog, Call (DeleteDoc (DocRef ''todos'' i)),
      ConsoleError ''Error deleting todo:'' e, Alert ''Error'' ''Failed to delete todo'' []]\<rparr>)"
  by (simp add: deleteTodo_def alert_buttons_def doc_def deleteDoc_def await_fail try_catch_def bind_p_def console_error_def alert_def emit_def)

lemma handleLogout_unconfirmed:
  "choice \<noteq> Some 1 \<Longrightarrow> handleLogout E choice w = (Return (), w\<lparr>trace := trace w @ [logout_dialog]\<rparr>)"
proof (cases choice)
  case None
  then show ?thesis by (simp add: handleLogout_def alert_buttons_none)
next
  case (Some n)
  assume "choice \<noteq> Some 1"
  with Some have "n = 0 \<or> 2 \<le> n" by auto
  with Some show ?thesis
    unfolding handleLogout_def by (subst alert_buttons_none [where n = n]) auto
qed

lemma handleLogout_ok:
  "rejects E Logout = None \<Longrightarrow>
   handleLogout E (Some 1) w = (Return (), w\<lparr>trace := trace w @ [logout_dialog, Call Logout]\<rparr>)"
  by (simp add: handleLogout_def alert_buttons_def logout_def await_ok try_catch_def bind_p_def emit_def)

lemma handleLogout_fail:
  "rejects E Logout = Some e \<Longrightarrow>
   handleLogout E (Some 1) w = (Return (), w\<lparr>trace := trace w @ [logout_dialog, Call Logout,
      ConsoleError ''Error logging out:'' e, Alert ''Error'' ''Logout failed'' []]\<rparr>)"
  by (simp add: handleLogout_def alert_buttons_def logout_def await_fail try_catch_def bind_p_def console_error_def alert_def emit_def)

lemma onNext_run: "onNext docs w = (Return (), w\<lparr>todos := map todo_of_doc docs, loading := False\<rparr>)"
  by (simp add: onNext_def bind_p_def setTodos_def setLoading_def)

lemma onError_run:
  "onError e w = (Return (), w\<lparr>trace := trace w @ [ConsoleError ''Error fetching todos:'' e, Alert ''Error'' ''Failed to load todos'' []], loading := False\<rparr>)"
  by (simp add: onError_def bind_p_def console_error_def alert_def emit_def setLoading_def)

section \<open>Creating a todo\<close>

lemma dom_new_todo: "dom (new_todo w now) = {''text'', ''completed'', ''createdAt''}"
  by auto

lemma createTodo_cases:
  obtains
    (blank) "trim (inputText w) = []"
      "createTodo E now w = (Return (), w\<lparr>trace := trace w @ [Alert ''Error'' ''Please enter a todo item'' []]\<rparr>)"
  | (ok) "trim (inputText w) \<noteq> []" "rejects E (AddDoc ''todos'' (new_todo w now)) = None"
      "createTodo E now w = (Return (), w\<lparr>trace := trace w @ [Call (AddDoc ''todos'' (new_todo w now))], inputText := []\<rparr>)"
  | (fail) e where "trim (inputText w) \<noteq> []" "rejects E (AddDoc ''todos'' (new_todo w now)) = Some e"
      "createTodo E now w = (Return (), w\<lparr>trace := trace w @ [Call (AddDoc ''todos'' (new_todo w now)),
         ConsoleError ''Error adding todo:'' e, Alert ''Error'' ''Failed to add todo'' []]\<rparr>)"
proof (cases "trim (inputText w) = []")
  case True
  then show ?thesis using blank createTodo_blank by blast
next
  case False
  show ?thesis
  proof (cases "rejects E (AddDoc ''todos'' (new_todo w now))")
    case None
    with False show ?thesis using ok createTodo_ok by blast
  next
    case (Some e)
    with False show ?thesis using fail createTodo_fail by blast
  qed
qed

text \<open>
  Claim C2. Every request \<open>createTodo\<close> issues is an \<^verbatim>\<open>addDoc\<close> on the collection
  \<^verbatim>\<open>todos\<close>, whose document has exactly the three fields \<^verbatim>\<open>text\<close>, \<^verbatim>\<open>completed\<close>
  and \<^verbatim>\<open>createdAt\<close>: the trimmed input, \<^verbatim>\<open>false\<close>, and the client's \<^verbatim>\<open>new Date()\<close>.
  It has no \<^verbatim>\<open>id\<close> field, and \<^verbatim>\<open>addDoc\<close> names a collection, not a document: the
  identifier is the store's to choose.
\<close>

theorem createTodo_document:
  assumes "createTodo E now w = (res, w')"
    and "r \<in> set (calls (issued w w'))"
  shows "\<exists>d. r = AddDoc ''todos'' d \<and> dom d = {''text'', ''completed'', ''createdAt''} \<and>
           d ''text'' = Some (JStr (trim (inputText w))) \<and>
           d ''completed'' = Some (JBool False) \<and>
           d ''createdAt'' = Some (JDate now) \<and>
           d ''id'' = None"
proof (cases rule: createTodo_cases [of w E now])
  case blank
  with assms show ?thesis by (auto simp: issued_def)
next
  case ok
  with assms have "r = AddDoc ''todos'' (new_todo w now)" by (auto simp: issued_def)
  then show ?thesis using dom_new_todo by auto
next
  case (fail e)
  with assms have "r = AddDoc ''todos'' (new_todo w now)" by (auto simp: issued_def)
  then show ?thesis using dom_new_todo by auto
qed

text \<open>
  Claim C5, as amended. The one check before the insert is the guard on line 81: an
  input that is empty once trimmed is answered by an alert, no request is issued and
  the state stays as it was. Every other input is forwarded, trimmed, with no further
  check of its content.
\<close>

theorem createTodo_validation:
  assumes "createTodo E now w = (res, w')"
  shows "(trim (inputText w) = [] \<longrightarrow>
            issued w w' = [Alert ''Error'' ''Please enter a todo item'' []] \<and> same_state w w') \<and>
         (trim (inputText w) \<noteq> [] \<longrightarrow>
            calls (issued w w') = [AddDoc ''todos'' (new_todo w now)])"
  by (cases rule: createTodo_cases [of w E now]) (use assms in \<open>auto simp: issued_def same_state_def\<close>)

text \<open>
  Claim C9. The input field changes only when the insert was issued and succeeded, and
  then it is cleared; after a rejected insert it is what it was. The text written is
  the trimmed input: where trimming changes the input, the raw input is not what is
  written.
\<close>

theorem createTodo_input_field:
  assumes "createTodo E now w = (res, w')"
  shows "(inputText w' \<noteq> inputText w \<longrightarrow>
            inputText w' = [] \<and> calls (issued w w') = [AddDoc ''todos'' (new_todo w now)] \<and>
            rejects E (AddDoc ''todos'' (new_todo w now)) = None) \<and>
         (trim (inputText w) \<noteq> [] \<and> rejects E (AddDoc ''todos'' (new_todo w now)) = None \<longrightarrow>
            inputText w' = []) \<and>
         (rejects E (AddDoc ''todos'' (new_todo w now)) \<noteq> None \<longrightarrow> inputText w' = inputText w) \<and>
         (\<forall>c d. AddDoc c d \<in> set (calls (issued w w')) \<longrightarrow>
            d ''text'' = Some (JStr (trim (inputText w))) \<and>
            (trim (inputText w) \<noteq> inputText w \<longrightarrow> d ''text'' \<noteq> Some (JStr (inputText w))))"
  by (cases rule: createTodo_cases [of w E now]) (use assms in \<open>auto simp: issued_def\<close>)

subsection \<open>Concrete runs\<close>

lemma trim_typed: "trim (inputText typed) = [0x61]"
  by (simp add: typed_def initial_def trim_def isWhiteSpace_def)

lemma trim_blank: "trim (inputText blank) = []"
  by (simp add: blank_def initial_def trim_def isWhiteSpace_def)

lemma createTodo_typed_accepting:
  "createTodo accepting 1700000000000 typed =
     (Return (), typed\<lparr>trace := [Call (AddDoc ''todos''
        [''text'' \<mapsto> JStr [0x61], ''completed'' \<mapsto> JBool False, ''createdAt'' \<mapsto> JDate 1700000000000])],
        inputText := []\<rparr>)"
  by (simp add: createTodo_ok trim_typed accepting_def) (simp add: typed_def initial_def)

lemma createTodo_typed_offline:
  "createTodo offline 1700000000000 typed =
     (Return (), typed\<lparr>trace := [Call (AddDoc ''todos''
        [''text'' \<mapsto> JStr [0x61], ''completed'' \<mapsto> JBool False, ''createdAt'' \<mapsto> JDate 1700000000000]),
        ConsoleError ''Error adding todo:'' (JsError ''unavailable''),
        Alert ''Error'' ''Failed to add todo'' []]\<rparr>)"
  by (simp add: createTodo_fail [where e = "JsError ''unavailable''"] trim_typed offline_def) (simp add: typed_def initial_def)

lemma createTodo_blank_accepting:
  "createTodo accepting 1700000000000 blank =
     (Return (), blank\<lparr>trace := [Alert ''Error'' ''Please enter a todo item'' []]\<rparr>)"
  by (simp add: createTodo_blank trim_blank) (simp add: blank_def initial_def)

text \<open>
  A run of claim C2: the input \<^verbatim>\<open>" a"\<close> is written as the text \<^verbatim>\<open>"a"\<close>.
\<close>

theorem createTodo_document_witness:
  "createTodo accepting 1700000000000 typed =
     (Return (), typed\<lparr>trace := [Call (AddDoc ''todos''
        [''text'' \<mapsto> JStr [0x61], ''completed'' \<mapsto> JBool False, ''createdAt'' \<mapsto> JDate 1700000000000])],
        inputText := []\<rparr>) \<and>
   (\<exists>d. AddDoc ''todos'' [''text'' \<mapsto> JStr [0x61], ''completed'' \<mapsto> JBool False,
                           ''createdAt'' \<mapsto> JDate 1700000000000] = AddDoc ''todos'' d \<and>
        dom d = {''text'', ''completed'', ''createdAt''} \<and>
        d ''text'' = Some (JStr [0x61]) \<and>
        d ''completed'' = Some (JBool False) \<and>
        d ''createdAt'' = Some (JDate 1700000000000) \<and>
        d ''id'' = None)"
proof -
  have mem: "AddDoc ''todos'' [''text'' \<mapsto> JStr [0x61], ''completed'' \<mapsto> JBool False,
                ''createdAt'' \<mapsto> JDate 1700000000000]
     \<in> set (calls (issued typed (typed\<lparr>trace := [Call (AddDoc ''todos''
        [''text'' \<mapsto> JStr [0x61], ''completed'' \<mapsto> JBool False, ''createdAt'' \<mapsto> JDate 1700000000000])],
        inputText := []\<rparr>)))"
    by (simp add: issued_def typed_def initial_def)
  show ?thesis
    using createTodo_document [OF createTodo_typed_accepting mem] createTodo_typed_accepting
    by (simp add: trim_typed)
qed

text \<open>
  Claim C5 as stated fails on an input of two spaces: the guard rejects it before any
  insert, with an alert.
\<close>

theorem createTodo_validation_counterexample:
  "calls (issued blank (snd (createTodo accepting 1700000000000 blank))) = [] \<and>
   issued blank (snd (createTodo accepting 1700000000000 blank)) =
     [Alert ''Error'' ''Please enter a todo item'' []]"
  by (simp add: createTodo_blank_accepting issued_def) (simp add: blank_def initial_def)

lemma rejects_accepting: "rejects accepting r = None"
  by (simp add: accepting_def)

lemma rejects_offline: "rejects offline r = Some (JsError ''unavailable'')"
  by (simp add: offline_def)

text \<open>
  Runs of the amended claim C5: two spaces are rejected, \<^verbatim>\<open>" a"\<close> is forwarded.
\<close>

theorem createTodo_validation_witness:
  "issued blank (snd (createTodo accepting 1700000000000 blank)) =
     [Alert ''Error'' ''Please enter a todo item'' []] \<and>
   same_state blank (snd (createTodo accepting 1700000000000 blank)) \<and>
   calls (issued typed (snd (createTodo accepting 1700000000000 typed))) =
     [AddDoc ''todos'' [''text'' \<mapsto> JStr [0x61], ''completed'' \<mapsto> JBool False,
                        ''createdAt'' \<mapsto> JDate 1700000000000]]"
  using createTodo_validation [OF createTodo_blank_accepting]
        createTodo_validation [OF createTodo_typed_accepting]
  by (simp add: createTodo_blank_accepting createTodo_typed_accepting trim_blank trim_typed)

text \<open>
  Runs of claim C9: the insert succeeds and the field is cleared; the insert is rejected
  and the field keeps the input.
\<close>

theorem createTodo_input_field_witness:
  "inputText (snd (createTodo accepting 1700000000000 typed)) = [] \<and>
   inputText (snd (createTodo offline 1700000000000 typed)) = inputText typed \<and>
   inputText typed = [0x20, 0x61] \<and>
   trim (inputText typed) = [0x61]"
proof -
  have "trim (inputText typed) \<noteq> []"
    by (simp add: trim_typed)
  with createTodo_input_field [OF createTodo_typed_accepting] rejects_accepting
  have 1: "inputText (snd (createTodo accepting 1700000000000 typed)) = []"
    unfolding createTodo_typed_accepting snd_conv by blast
  have "rejects offline (AddDoc ''todos'' (new_todo typed 1700000000000)) \<noteq> None"
    by (simp add: rejects_offline)
  with createTodo_input_field [OF createTodo_typed_offline]
  have 2: "inputText (snd (createTodo offline 1700000000000 typed)) = inputText typed"
    unfolding createTodo_typed_offline snd_conv by blast
  have 3: "inputText typed = [0x20, 0x61]"
    by (simp add: typed_def initial_def)
  from 1 2 3 trim_typed show ?thesis by blast
qed

section \<open>Toggling a todo\<close>

lemma toggleTodo_cases:
  obtains
    (doc_throws) e where "doc_throws E ''todos'' i = Some e"
      "toggleTodo E i c w = (Return (), w\<lparr>trace := trace w @
         [ConsoleError ''Error updating todo:'' e, Alert ''Error'' ''Failed to update todo'' []]\<rparr>)"
  | (ok) "doc_throws E ''todos'' i = None"
      "rejects E (UpdateDoc (DocRef ''todos'' i) (toggle_payload c)) = None"
      "toggleTodo E i c w = (Return (), w\<lparr>trace := trace w @
         [Call (UpdateDoc (DocRef ''todos'' i) (toggle_payload c))]\<rparr>)"
  | (fail) e where "doc_throws E ''todos'' i = None"
      "rejects E (UpdateDoc (DocRef ''todos'' i) (toggle_payload c)) = Some e"
      "toggleTodo E i c w = (Return (), w\<lparr>trace := trace w @
         [Call (UpdateDoc (DocRef ''todos'' i) (toggle_payload c)),
          ConsoleError ''Error updating todo:'' e, Alert ''Error'' ''Failed to update todo'' []]\<rparr>)"
proof (cases "doc_throws E ''todos'' i")
  case (Some e)
  then show ?thesis using doc_throws toggleTodo_doc_throws by blast
next
  case None
  show ?thesis
  proof (cases "rejects E (UpdateDoc (DocRef ''todos'' i) (toggle_payload c))")
    case None
    with \<open>doc_throws E ''todos'' i = None\<close> show ?thesis using ok toggleTodo_ok by blast
  next
    case (Some e)
    with \<open>doc_throws E ''todos'' i = None\<close> show ?thesis using fail toggleTodo_fail by blast
  qed
qed



lemma doc_throws_accepting: "doc_throws accepting c i = None"
  by (simp add: accepting_def)

lemma doc_throws_offline: "doc_throws offline c i = None"
  by (simp add: offline_def)

lemma doc_throws_malformed: "doc_throws malformed c i = Some (JsError ''invalid-argument'')"
  by (simp add: malformed_def)





section \<open>Deleting a todo and logging out\<close>

lemma deleteTodo_cases:
  obtains
    (unconfirmed) "choice \<noteq> Some 1"
      "deleteTodo E i choice w = (Return (), w\<lparr>trace := trace w @ [delete_dialog]\<rparr>)"
  | (doc_throws) e where "choice = Some 1" "doc_throws E ''todos'' i = Some e"
      "deleteTodo E i choice w = (Return (), w\<lparr>trace := trace w @
         [delete_dialog, ConsoleError ''Error deleting todo:'' e,
          Alert ''Error'' ''Failed to delete todo'' []]\<rparr>)"
  | (ok) "choice = Some 1" "doc_throws E ''todos'' i = None"
      "rejects E (DeleteDoc (DocRef ''todos'' i)) = None"
      "deleteTodo E i choice w = (Return (), w\<lparr>trace := trace w @
         [delete_dialog, Call (DeleteDoc (DocRef ''todos'' i))]\<rparr>)"
  | (fail) e where "choice = Some 1" "doc_throws E ''todos'' i = None"
      "rejects E (DeleteDoc (DocRef ''todos'' i)) = Some e"
      "deleteTodo E i choice w = (Return (), w\<lparr>trace := trace w @
         [delete_dialog, Call (DeleteDoc (DocRef ''todos'' i)),
          ConsoleError ''Error deleting todo:'' e, Alert ''Error'' ''Failed to delete todo'' []]\<rparr>)"
proof (cases "choice = Some 1")
  case False
  then show ?thesis using unconfirmed deleteTodo_unconfirmed by blast
next
  case True
  show ?thesis
  proof (cases "doc_throws E ''todos'' i")
    case (Some e)
    with True show ?thesis using doc_throws deleteTodo_doc_throws by blast
  next
    case None
    show ?thesis
    proof (cases "rejects E (DeleteDoc (DocRef ''todos'' i))")
      case (Some e)
      with True \<open>doc_throws E ''todos'' i = None\<close> show ?thesis
        using fail deleteTodo_fail by blast
    next
      case None
      with True \<open>doc_throws E ''todos'' i = None\<close> show ?thesis
        using ok deleteTodo_ok by blast
    qed
  qed
qed

lemma handleLogout_cases:
  obtains
    (unconfirmed) "choice \<noteq> Some 1"
      "handleLogout E choice w = (Return (), w\<lparr>trace := trace w @ [logout_dialog]\<rparr>)"
  | (ok) "choice = Some 1" "rejects E Logout = None"
      "handleLogout E choice w = (Return (), w\<lparr>trace := trace w @ [logout_dialog, Call Logout]\<rparr>)"
  | (fail) e where "choice = Some 1" "rejects E Logout = Some e"
      "handleLogout E choice w = (Return (), w\<lparr>trace := trace w @
         [logout_dialog, Call Logout, ConsoleError ''Error logging out:'' e,
          Alert ''Error'' ''Logout failed'' []]\<rparr>)"
proof (cases "choice = Some 1")
  case False
  then show ?thesis using unconfirmed handleLogout_unconfirmed by blast
next
  case True
  show ?thesis
  proof (cases "rejects E Logout")
    case (Some e)
    with True show ?thesis using fail handleLogout_fail by blast
  next
    case None
    with True show ?thesis using ok handleLogout_ok by blast
  qed
qed

lemma createTodo_returns: "fst (createTodo E now w) = Return ()"
  by (cases rule: createTodo_cases [of w E now]) simp_all

lemma toggleTodo_returns: "fst (toggleTodo E i c w) = Return ()"
  by (cases rule: toggleTodo_cases [of E i c w]) simp_all

lemma deleteTodo_returns: "fst (deleteTodo E i choice w) = Return ()"
  by (cases rule: deleteTodo_cases [of choice E i w]) simp_all

lemma handleLogout_returns: "fst (handleLogout E choice w) = Return ()"
  by (cases rule: handleLogout_cases [of choice E w]) simp_all

text \<open>
  Claim C8. \<open>deleteTodo\<close> and \<open>handleLogout\<close> first show their dialog, with the buttons
  Cancel (index 0) and Delete or Logout (index 1). Unless the user presses button 1,
  the dialog is the only effect and the state is unchanged: no request is issued. A
  request in the trace means the user pressed button 1, and it is the delete of
  \<^verbatim>\<open>todos/i\<close>, or the logout.
\<close>

theorem confirmation_required:
  "(\<exists>rest. issued w (snd (deleteTodo E i choice w)) = delete_dialog # rest) \<and>
   (\<exists>rest. issued w (snd (handleLogout E choice w)) = logout_dialog # rest) \<and>
   (choice \<noteq> Some 1 \<longrightarrow>
      snd (deleteTodo E i choice w) = w\<lparr>trace := trace w @ [delete_dialog]\<rparr> \<and>
      snd (handleLogout E choice w) = w\<lparr>trace := trace w @ [logout_dialog]\<rparr>) \<and>
   (\<forall>r. r \<in> set (calls (issued w (snd (deleteTodo E i choice w)))) \<longrightarrow>
      choice = Some 1 \<and> r = DeleteDoc (DocRef ''todos'' i)) \<and>
   (\<forall>r. r \<in> set (calls (issued w (snd (handleLogout E choice w)))) \<longrightarrow>
      choice = Some 1 \<and> r = Logout)"
proof -
  have d: "(\<exists>rest. issued w (snd (deleteTodo E i choice w)) = delete_dialog # rest) \<and>
     (choice \<noteq> Some 1 \<longrightarrow> snd (deleteTodo E i choice w) = w\<lparr>trace := trace w @ [delete_dialog]\<rparr>) \<and>
     (\<forall>r. r \<in> set (calls (issued w (snd (deleteTodo E i choice w)))) \<longrightarrow>
        choice = Some 1 \<and> r = DeleteDoc (DocRef ''todos'' i))"
    by (cases rule: deleteTodo_cases [of choice E i w]) (simp_all add: issued_def)
  have l: "(\<exists>rest. issued w (snd (handleLogout E choice w)) = logout_dialog # rest) \<and>
     (choice \<noteq> Some 1 \<longrightarrow> snd (handleLogout E choice w) = w\<lparr>trace := trace w @ [logout_dialog]\<rparr>) \<and>
     (\<forall>r. r \<in> set (calls (issued w (snd (handleLogout E choice w)))) \<longrightarrow>
        choice = Some 1 \<and> r = Logout)"
    by (cases rule: handleLogout_cases [of choice E w]) (simp_all add: issued_def)
  from d l show ?thesis by blast
qed

text \<open>
  Runs of claim C8: Cancel, then the confirming button, on both dialogs.
\<close>

theorem confirmation_required_witness:
  "snd (deleteTodo accepting [0x61] (Some 0) initial) = initial\<lparr>trace := trace initial @ [delete_dialog]\<rparr> \<and>
   snd (handleLogout accepting (Some 0) initial) = initial\<lparr>trace := trace initial @ [logout_dialog]\<rparr> \<and>
   calls (issued initial (snd (deleteTodo accepting [0x61] (Some 0) initial))) = [] \<and>
   calls (issued initial (snd (handleLogout accepting (Some 0) initial))) = [] \<and>
   calls (issued initial (snd (deleteTodo accepting [0x61] (Some 1) initial))) =
     [DeleteDoc (DocRef ''todos'' [0x61])] \<and>
   calls (issued initial (snd (handleLogout accepting (Some 1) initial))) = [Logout]"
proof -
  have ne: "Some (0::nat) \<noteq> Some 1" by simp
  from confirmation_required [of initial accepting "[0x61]" "Some 0"] ne
  have 1: "snd (deleteTodo accepting [0x61] (Some 0) initial) = initial\<lparr>trace := trace initial @ [delete_dialog]\<rparr>"
    and 2: "snd (handleLogout accepting (Some 0) initial) = initial\<lparr>trace := trace initial @ [logout_dialog]\<rparr>"
    by blast+
  have 3: "calls (issued initial (snd (deleteTodo accepting [0x61] (Some 1) initial))) =
     [DeleteDoc (DocRef ''todos'' [0x61])]"
    using deleteTodo_ok [of accepting "[0x61]" initial, OF doc_throws_accepting rejects_accepting]
    by (simp add: issued_def)
  have 4: "calls (issued initial (snd (handleLogout accepting (Some 1) initial))) = [Logout]"
    using handleLogout_ok [of accepting initial, OF rejects_accepting]
    by (simp add: issued_def)
  from 1 2 3 4 show ?thesis by (simp add: issued_def)
qed

section \<open>Failures\<close>

lemma onError_issued:
  "issued w (snd (onError err w)) =
     [ConsoleError ''Error fetching todos:'' err, Alert ''Error'' ''Failed to load todos'' []]"
  by (simp add: onError_run issued_def)

lemma createTodo_failure:
  "trim (inputText w) \<noteq> [] \<and> rejects E (AddDoc ''todos'' (new_todo w now)) = Some err \<longrightarrow>
     issued w (snd (createTodo E now w)) =
       [Call (AddDoc ''todos'' (new_todo w now)),
        ConsoleError ''Error adding todo:'' err, Alert ''Error'' ''Failed to add todo'' []]"
  by (simp add: createTodo_fail issued_def)

lemma toggleTodo_failure:
  "(doc_throws E ''todos'' i = Some err \<longrightarrow>
      issued w (snd (toggleTodo E i c w)) =
        [ConsoleError ''Error updating todo:'' err, Alert ''Error'' ''Failed to update todo'' []]) \<and>
   (doc_throws E ''todos'' i = None \<and>
    rejects E (UpdateDoc (DocRef ''todos'' i) (toggle_payload c)) = Some err \<longrightarrow>
      issued w (snd (toggleTodo E i c w)) =
        [Call (UpdateDoc (DocRef ''todos'' i) (toggle_payload c)),
         ConsoleError ''Error updating todo:'' err, Alert ''Error'' ''Failed to update todo'' []])"
  by (simp add: toggleTodo_doc_throws toggleTodo_fail issued_def)

lemma deleteTodo_failure:
  "(doc_throws E ''todos'' i = Some err \<longrightarrow>
      issued w (snd (deleteTodo E i (Some 1) w)) =
        [delete_dialog, ConsoleError ''Error deleting todo:'' err,
         Alert ''Error'' ''Failed to delete todo'' []]) \<and>
   (doc_throws E ''todos'' i = None \<and> rejects E (DeleteDoc (DocRef ''todos'' i)) = Some err \<longrightarrow>
      issued w (snd (deleteTodo E i (Some 1) w)) =
        [delete_dialog, Call (DeleteDoc (DocRef ''todos'' i)),
         ConsoleError ''Error deleting todo:'' err, Alert ''Error'' ''Failed to delete todo'' []])"
  using deleteTodo_doc_throws [of E i err w] deleteTodo_fail [of E i err w]
  by (auto simp: issued_def)

lemma handleLogout_failure:
  "rejects E Logout = Some err \<longrightarrow>
      issued w (snd (handleLogout E (Some 1) w)) =
        [logout_dialog, Call Logout, ConsoleError ''Error logging out:'' err,
         Alert ''Error'' ''Logout failed'' []]"
  using handleLogout_fail [of E err w] by (auto simp: issued_def)

text \<open>
  Claim C4. In every environment, each of the five places where the store or the auth
  provider can fail returns normally: no error leaves the error callback of the
  subscription, \<open>createTodo\<close>, \<open>toggleTodo\<close>, \<open>deleteTodo\<close> or \<open>handleLogout\<close>. When a call
  fails (a rejected promise, or \<^verbatim>\<open>doc\<close> throwing), what follows it is the log line and
  one alert, whose title and message are fixed and do not depend on the error; no call
  is issued a second time.
\<close>

theorem failures_caught:
  "fst (onError err w) = Return () \<and>
   fst (createTodo E now w) = Return () \<and>
   fst (toggleTodo E i c w) = Return () \<and>
   fst (deleteTodo E i choice w) = Return () \<and>
   fst (handleLogout E choice w) = Return () \<and>
   issued w (snd (onError err w)) =
     [ConsoleError ''Error fetching todos:'' err, Alert ''Error'' ''Failed to load todos'' []] \<and>
   (trim (inputText w) \<noteq> [] \<and> rejects E (AddDoc ''todos'' (new_todo w now)) = Some err \<longrightarrow>
      issued w (snd (createTodo E now w)) =
        [Call (AddDoc ''todos'' (new_todo w now)),
         ConsoleError ''Error adding todo:'' err, Alert ''Error'' ''Failed to add todo'' []]) \<and>
   (doc_throws E ''todos'' i = Some err \<longrightarrow>
      issued w (snd (toggleTodo E i c w)) =
        [ConsoleError ''Error updating todo:'' err, Alert ''Error'' ''Failed to update todo'' []]) \<and>
   (doc_throws E ''todos'' i = None \<and>
    rejects E (UpdateDoc (DocRef ''todos'' i) (toggle_payload c)) = Some err \<longrightarrow>
      issued w (snd (toggleTodo E i c w)) =
        [Call (UpdateDoc (DocRef ''todos'' i) (toggle_payload c)),
         ConsoleError ''Error updating todo:'' err, Alert ''Error'' ''Failed to update todo'' []]) \<and>
   (doc_throws E ''todos'' i = Some err \<longrightarrow>
      issued w (snd (deleteTodo E i (Some 1) w)) =
        [delete_dialog, ConsoleError ''Error deleting todo:'' err,
         Alert ''Error'' ''Failed to delete todo'' []]) \<and>
   (doc_throws E ''todos'' i = None \<and> rejects E (DeleteDoc (DocRef ''todos'' i)) = Some err \<longrightarrow>
      issued w (snd (deleteTodo E i (Some 1) w)) =
        [delete_dialog, Call (DeleteDoc (DocRef ''todos'' i)),
         ConsoleError ''Error deleting todo:'' err, Alert ''Error'' ''Failed to delete todo'' []]) \<and>
   (rejects E Logout = Some err \<longrightarrow>
      issued w (snd (handleLogout E (Some 1) w)) =
        [logout_dialog, Call Logout, ConsoleError ''Error logging out:'' err,
         Alert ''Error'' ''Logout failed'' []])"
proof -
  have "fst (onError err w) = Return ()"
    by (simp add: onError_run)
  then show ?thesis
    using createTodo_returns [of E now w] toggleTodo_returns [of E i c w]
      deleteTodo_returns [of E i choice w] handleLogout_returns [of E choice w]
      onError_issued [of w err] createTodo_failure [of w E now err]
      toggleTodo_failure [of E i err w c] deleteTodo_failure [of E i err w]
      handleLogout_failure [of E err w]
    by blast
qed

text \<open>
  Runs of claim C4: every request rejected, and \<^verbatim>\<open>doc\<close> throwing.
\<close>

theorem failures_caught_witness:
  "issued typed (snd (createTodo offline 1700000000000 typed)) =
     [Call (AddDoc ''todos'' (new_todo typed 1700000000000)),
      ConsoleError ''Error adding todo:'' (JsError ''unavailable''),
      Alert ''Error'' ''Failed to add todo'' []] \<and>
   issued typed (snd (toggleTodo offline [0x61] False typed)) =
     [Call (UpdateDoc (DocRef ''todos'' [0x61]) (toggle_payload False)),
      ConsoleError ''Error updating todo:'' (JsError ''unavailable''),
      Alert ''Error'' ''Failed to update todo'' []] \<and>
   issued typed (snd (toggleTodo malformed [0x61] False typed)) =
     [ConsoleError ''Error updating todo:'' (JsError ''invalid-argument''),
      Alert ''Error'' ''Failed to update todo'' []] \<and>
   issued typed (snd (deleteTodo offline [0x61] (Some 1) typed)) =
     [delete_dialog, Call (DeleteDoc (DocRef ''todos'' [0x61])),
      ConsoleError ''Error deleting todo:'' (JsError ''unavailable''),
      Alert ''Error'' ''Failed to delete todo'' []] \<and>
   issued typed (snd (deleteTodo malformed [0x61] (Some 1) typed)) =
     [delete_dialog, ConsoleError ''Error deleting todo:'' (JsError ''invalid-argument''),
      Alert ''Error'' ''Failed to delete todo'' []] \<and>
   issued typed (snd (handleLogout offline (Some 1) typed)) =
     [logout_dialog, Call Logout, ConsoleError ''Error logging out:'' (JsError ''unavailable''),
      Alert ''Error'' ''Logout failed'' []]"
proof -
  have ne: "trim (inputText typed) \<noteq> []"
    by (simp add: trim_typed)
  note off = failures_caught [of "JsError ''unavailable''" typed offline 1700000000000 "[0x61]" False "Some 1"]
  note mal = failures_caught [of "JsError ''invalid-argument''" typed malformed 1700000000000 "[0x61]" False "Some 1"]
  from off ne rejects_offline [of "AddDoc ''todos'' (new_todo typed 1700000000000)"]
  have 1: "issued typed (snd (createTodo offline 1700000000000 typed)) =
     [Call (AddDoc ''todos'' (new_todo typed 1700000000000)),
      ConsoleError ''Error adding todo:'' (JsError ''unavailable''),
      Alert ''Error'' ''Failed to add todo'' []]"
    by blast
  from off doc_throws_offline [of "''todos''" "[0x61]"]
    rejects_offline [of "UpdateDoc (DocRef ''todos'' [0x61]) (toggle_payload False)"]
  have 2: "issued typed (snd (toggleTodo offline [0x61] False typed)) =
     [Call (UpdateDoc (DocRef ''todos'' [0x61]) (toggle_payload False)),
      ConsoleError ''Error updating todo:'' (JsError ''unavailable''),
      Alert ''Error'' ''Failed to update todo'' []]"
    by blast
  from mal doc_throws_malformed [of "''todos''" "[0x61]"]
  have 3: "issued typed (snd (toggleTodo malformed [0x61] False typed)) =
     [ConsoleError ''Error updating todo:'' (JsError ''invalid-argument''),
      Alert ''Error'' ''Failed to update todo'' []]"
    by blast
  from off doc_throws_offline [of "''todos''" "[0x61]"]
    rejects_offline [of "DeleteDoc (DocRef ''todos'' [0x61])"]
  have 4: "issued typed (snd (deleteTodo offline [0x61] (Some 1) typed)) =
     [delete_dialog, Call (DeleteDoc (DocRef ''todos'' [0x61])),
      ConsoleError ''Error deleting todo:'' (JsError ''unavailable''),
      Alert ''Error'' ''Failed to delete todo'' []]"
    by blast
  from mal doc_throws_malformed [of "''todos''" "[0x61]"]
  have 5: "issued typed (snd (deleteTodo malformed [0x61] (Some 1) typed)) =
     [delete_dialog, ConsoleError ''Error deleting todo:'' (JsError ''invalid-argument''),
      Alert ''Error'' ''Failed to delete todo'' []]"
    by blast
  from off rejects_offline [of Logout]
  have 6: "issued typed (snd (handleLogout offline (Some 1) typed)) =
     [logout_dialog, Call Logout, ConsoleError ''Error logging out:'' (JsError ''unavailable''),
      Alert ''Error'' ''Logout failed'' []]"
    by blast
  from 1 2 3 4 5 6 show ?thesis by blast
qed

section \<open>Fire and forget\<close>

lemma forgottenI:
  "trace w' = trace w @ pre @ Call r # post \<Longrightarrow> same_state w w' \<Longrightarrow> calls pre = [] \<Longrightarrow>
   calls post = [] \<Longrightarrow> shown post = [Alert ''Error'' message []] \<Longrightarrow> forgotten w w' r message"
  unfolding forgotten_def issued_def by auto

lemma createTodo_forgotten:
  "length (calls (issued w (snd (createTodo E now w)))) \<le> 1 \<and>
   (\<forall>r err. r \<in> set (calls (issued w (snd (createTodo E now w)))) \<and> rejects E r = Some err \<longrightarrow>
      forgotten w (snd (createTodo E now w)) r ''Failed to add todo'')"
proof (cases rule: createTodo_cases [of w E now])
  case blank
  then show ?thesis by (simp add: issued_def)
next
  case ok
  then show ?thesis by (simp add: issued_def)
next
  case (fail e)
  have "forgotten w (snd (createTodo E now w)) (AddDoc ''todos'' (new_todo w now)) ''Failed to add todo''"
    by (rule forgottenI [where pre = "[]" and post = "[ConsoleError ''Error adding todo:'' e,
          Alert ''Error'' ''Failed to add todo'' []]"]) (simp_all add: fail same_state_def)
  with fail show ?thesis by (simp add: issued_def)
qed

lemma toggleTodo_forgotten:
  "length (calls (issued w (snd (toggleTodo E i c w)))) \<le> 1 \<and>
   (\<forall>r err. r \<in> set (calls (issued w (snd (toggleTodo E i c w)))) \<and> rejects E r = Some err \<longrightarrow>
      forgotten w (snd (toggleTodo E i c w)) r ''Failed to update todo'')"
proof (cases rule: toggleTodo_cases [of E i c w])
  case (doc_throws e)
  then show ?thesis by (simp add: issued_def)
next
  case ok
  then show ?thesis by (simp add: issued_def)
next
  case (fail e)
  have "forgotten w (snd (toggleTodo E i c w)) (UpdateDoc (DocRef ''todos'' i) (toggle_payload c))
          ''Failed to update todo''"
    by (rule forgottenI [where pre = "[]" and post = "[ConsoleError ''Error updating todo:'' e,
          Alert ''Error'' ''Failed to update todo'' []]"]) (simp_all add: fail same_state_def)
  with fail show ?thesis by (simp add: issued_def)
qed

lemma deleteTodo_forgotten:
  "length (calls (issued w (snd (deleteTodo E i choice w)))) \<le> 1 \<and>
   (\<forall>r err. r \<in> set (calls (issued w (snd (deleteTodo E i choice w)))) \<and> rejects E r = Some err \<longrightarrow>
      forgotten w (snd (deleteTodo E i choice w)) r ''Failed to delete todo'')"
proof (cases rule: deleteTodo_cases [of choice E i w])
  case unconfirmed
  then show ?thesis by (simp add: issued_def)
next
  case (doc_throws e)
  then show ?thesis by (simp add: issued_def)
next
  case ok
  then show ?thesis by (simp add: issued_def)
next
  case (fail e)
  have "forgotten w (snd (deleteTodo E i choice w)) (DeleteDoc (DocRef ''todos'' i))
          ''Failed to delete todo''"
    by (rule forgottenI [where pre = "[delete_dialog]" and post = "[ConsoleError ''Error deleting todo:'' e,
          Alert ''Error'' ''Failed to delete todo'' []]"]) (simp_all add: fail(4) same_state_def)
  with fail(3,4) show ?thesis by (simp add: issued_def)
qed

text \<open>
  Claim C7. One run of \<open>createTodo\<close>, \<open>toggleTodo\<close> or \<open>deleteTodo\<close> issues at most one
  request. When the store rejects it, the request is not issued again, the state of the
  component is what it was, and the user is shown one thing: the error alert (the
  \<^verbatim>\<open>catch\<close> block also writes a line to the console, which \<open>shown\<close> leaves out).
\<close>

theorem mutations_fire_and_forget:
  "length (calls (issued w (snd (createTodo E now w)))) \<le> 1 \<and>
   length (calls (issued w (snd (toggleTodo E i c w)))) \<le> 1 \<and>
   length (calls (issued w (snd (deleteTodo E i choice w)))) \<le> 1 \<and>
   (\<forall>r err. r \<in> set (calls (issued w (snd (createTodo E now w)))) \<and> rejects E r = Some err \<longrightarrow>
      forgotten w (snd (createTodo E now w)) r ''Failed to add todo'') \<and>
   (\<forall>r err. r \<in> set (calls (issued w (snd (toggleTodo E i c w)))) \<and> rejects E r = Some err \<longrightarrow>
      forgotten w (snd (toggleTodo E i c w)) r ''Failed to update todo'') \<and>
   (\<forall>r err. r \<in> set (calls (issued w (snd (deleteTodo E i choice w)))) \<and> rejects E r = Some err \<longrightarrow>
      forgotten w (snd (deleteTodo E i choice w)) r ''Failed to delete todo'')"
  using createTodo_forgotten [of w E now] toggleTodo_forgotten [of w E i c]
    deleteTodo_forgotten [of w E i choice]
  by blast

text \<open>
  Runs of claim C7 with every request rejected.
\<close>

theorem mutations_fire_and_forget_witness:
  "forgotten typed (snd (createTodo offline 1700000000000 typed))
     (AddDoc ''todos'' (new_todo typed 1700000000000)) ''Failed to add todo'' \<and>
   forgotten typed (snd (toggleTodo offline [0x61] False typed))
     (UpdateDoc (DocRef ''todos'' [0x61]) (toggle_payload False)) ''Failed to update todo'' \<and>
   forgotten typed (snd (deleteTodo offline [0x61] (Some 1) typed))
     (DeleteDoc (DocRef ''todos'' [0x61])) ''Failed to delete todo''"
proof -
  have ne: "trim (inputText typed) \<noteq> []"
    by (simp add: trim_typed)
  note t = mutations_fire_and_forget [of typed offline 1700000000000 "[0x61]" False "Some 1"]
  have 1: "AddDoc ''todos'' (new_todo typed 1700000000000)
      \<in> set (calls (issued typed (snd (createTodo offline 1700000000000 typed))))"
    using createTodo_fail [OF ne rejects_offline, of 1700000000000]
    by (simp add: issued_def)
  have 2: "UpdateDoc (DocRef ''todos'' [0x61]) (toggle_payload False)
      \<in> set (calls (issued typed (snd (toggleTodo offline [0x61] False typed))))"
    using toggleTodo_fail [OF doc_throws_offline rejects_offline, of "[0x61]" False typed]
    by (simp add: issued_def)
  have 3: "DeleteDoc (DocRef ''todos'' [0x61])
      \<in> set (calls (issued typed (snd (deleteTodo offline [0x61] (Some 1) typed))))"
    using deleteTodo_fail [OF doc_throws_offline rejects_offline, of "[0x61]" typed]
    by (simp add: issued_def)
  from t 1 2 3 rejects_offline show ?thesis by blast
qed

section \<open>The live query\<close>

text \<open>
  The handle \<open>onSnapshot\<close> picks is not in use.
\<close>

lemma fold_max_ge: "(a::nat) \<le> fold max hs a \<and> (\<forall>x\<in>set hs. x \<le> fold max hs a)"
proof (induction hs arbitrary: a)
  case Nil
  then show ?case by simp
next
  case (Cons h hs)
  from Cons.IH [of "max h a"] show ?case by auto
qed

lemma fresh_notin: "fresh hs \<notin> set hs"
proof
  assume "fresh hs \<in> set hs"
  with fold_max_ge [of 0 hs] have "fresh hs \<le> fold max hs 0" by blast
  then show False by (simp add: fresh_def)
qed

lemma subscriptions_append: "subscriptions (xs @ ys) = subscriptions xs @ subscriptions ys"
  by (induction xs rule: subscriptions.induct) simp_all

lemma quiet_refl: "quiet w w"
  by (simp add: quiet_def)

lemma quiet_trans: "quiet w w' \<Longrightarrow> quiet w' w'' \<Longrightarrow> quiet w w''"
  unfolding quiet_def by (auto simp: subscriptions_append)

text \<open>
  No event of a mounted component opens or closes a listener: \<open>quiet\<close> relates the
  world before and after.
\<close>

lemma dispatch_quiet: "quiet w (snd (dispatch E ev w))"
proof (cases ev)
  case (Snapshot docs)
  then show ?thesis by (simp add: onNext_run quiet_def)
next
  case (SnapshotError e)
  then show ?thesis by (simp add: onError_run quiet_def)
next
  case (ChangeText s)
  then show ?thesis by (simp add: setInputText_def quiet_def)
next
  case (PressAdd now)
  show ?thesis
    by (cases rule: createTodo_cases [of w E now]) (simp_all add: PressAdd quiet_def)
next
  case (PressToggle i c)
  show ?thesis
    by (cases rule: toggleTodo_cases [of E i c w]) (simp_all add: PressToggle quiet_def)
next
  case (PressDelete i choice)
  show ?thesis
    by (cases rule: deleteTodo_cases [of choice E i w]) (simp_all add: PressDelete quiet_def)
next
  case (PressLogout choice)
  show ?thesis
    by (cases rule: handleLogout_cases [of choice E w]) (simp_all add: PressLogout quiet_def)
qed

lemma run_quiet: "quiet w (run E evs w)"
proof (induction evs arbitrary: w)
  case Nil
  then show ?case by (simp add: quiet_refl)
next
  case (Cons ev evs)
  from dispatch_quiet [of w E ev] Cons.IH [of "snd (dispatch E ev w)"]
  show ?case by (simp add: quiet_trans)
qed

lemma mount_run:
  "mount w = (Return (fresh (listeners w)),
     w\<lparr>listeners := fresh (listeners w) # listeners w,
       trace := trace w @ [Subscribe (Query ''todos'' ''createdAt'' Desc) (fresh (listeners w))]\<rparr>)"
  by (simp add: mount_def onSnapshot_def todosCollection_def Let_def)

text \<open>
  Claim C6. Mounting registers one listener, for the query on \<^verbatim>\<open>todos\<close>. Whatever
  happens while the component is mounted (snapshots, errors, edits, presses, whatever
  the environment answers), that listener stays the only one the component holds and no
  other is opened or closed. Unmounting removes that very listener: the store's
  listeners are again those from before the mount, none if there were none.
\<close>

theorem subscription_lifecycle:
  "listeners (mounted E evs w) = fresh (listeners w) # listeners w \<and>
   subscriptions (issued w (mounted E evs w)) =
     [Subscribe (Query ''todos'' ''createdAt'' Desc) (fresh (listeners w))] \<and>
   listeners (lifetime E evs w) = listeners w \<and>
   subscriptions (issued w (lifetime E evs w)) =
     [Subscribe (Query ''todos'' ''createdAt'' Desc) (fresh (listeners w)),
      Unsubscribe (fresh (listeners w))]"
proof -
  let ?h = "fresh (listeners w)"
  let ?w1 = "snd (mount w)"
  from run_quiet [of ?w1 E evs] obtain xs where
    l: "listeners (run E evs ?w1) = ?h # listeners w" and
    t: "trace (run E evs ?w1) = trace w @ Subscribe (Query ''todos'' ''createdAt'' Desc) ?h # xs" and
    s: "subscriptions xs = []"
    by (auto simp: quiet_def mount_run)
  have life: "lifetime E evs w = snd (unmount ?h (run E evs ?w1))"
    by (simp add: lifetime_def mount_run)
  from l t s fresh_notin [of "listeners w"] show ?thesis
    by (simp add: mounted_def life unmount_def unsubscribe_def issued_def subscriptions_append)
qed

text \<open>
  A life under claim C6: a snapshot, a toggle that fails, an error from the store.
\<close>

theorem subscription_lifecycle_witness:
  "listeners (mounted offline [Snapshot [], PressToggle [0x61] False, SnapshotError (JsError ''unavailable'')] initial) = [1] \<and>
   listeners (lifetime offline [Snapshot [], PressToggle [0x61] False, SnapshotError (JsError ''unavailable'')] initial) = [] \<and>
   subscriptions (issued initial
     (lifetime offline [Snapshot [], PressToggle [0x61] False, SnapshotError (JsError ''unavailable'')] initial)) =
     [Subscribe (Query ''todos'' ''createdAt'' Desc) 1, Unsubscribe 1]"
proof -
  have "listeners initial = []"
    by (simp add: initial_def)
  moreover have "fresh [] = 1"
    by (simp add: fresh_def)
  ultimately show ?thesis
    using subscription_lifecycle [of offline
        "[Snapshot [], PressToggle [0x61] False, SnapshotError (JsError ''unavailable'')]" initial]
    by simp
qed

text \<open>
  What the snapshot callback makes of a document: the stored fields as they are, and the
  document's id under \<^verbatim>\<open>id\<close> when no stored field has that name. The list replaces
  \<^verbatim>\<open>todos\<close>, whatever it held, item for item and in the snapshot's order.
\<close>

lemma todo_of_doc_createdAt: "todo_of_doc d ''createdAt'' = doc_data d ''createdAt''"
  by (simp add: todo_of_doc_def map_add_def split: option.split)

lemma todo_of_doc_fields: "doc_data d k = Some v \<Longrightarrow> todo_of_doc d k = Some v"
  by (simp add: todo_of_doc_def map_add_def)

lemma todo_of_doc_id: "doc_data d ''id'' = None \<Longrightarrow> todo_of_doc d ''id'' = Some (JStr (doc_id d))"
  by (simp add: todo_of_doc_def map_add_def)

lemma todo_of_doc_dom: "dom (todo_of_doc d) = insert ''id'' (dom (doc_data d))"
  by (auto simp: todo_of_doc_def)

lemma onNext_todos: "todos (snd (onNext docs w)) = map todo_of_doc docs"
  by (simp add: onNext_run)

lemma onNext_length: "length (todos (snd (onNext docs w))) = length docs"
  by (simp add: onNext_run)

text \<open>
  Claim C10. The listener is opened on the query ordered by \<^verbatim>\<open>createdAt\<close>, descending.
  The callback keeps the order and the \<^verbatim>\<open>createdAt\<close> values of the snapshot's documents,
  so a snapshot that arrives newest first (in the store's order \<open>le\<close>) is held and
  rendered newest first; nothing is sorted on the client.
\<close>

theorem snapshot_order_preserved:
  "issued w (snd (mount w)) =
     [Subscribe (Query ''todos'' ''createdAt'' Desc) (fresh (listeners w))] \<and>
   map (\<lambda>t. t ''createdAt'') (todos (snd (onNext docs w))) =
     map (\<lambda>d. doc_data d ''createdAt'') docs \<and>
   (newest_first le (map doc_data docs) \<longrightarrow> newest_first le (todos (snd (onNext docs w)))) \<and>
   render (snd (onNext docs w)) =
     (if docs = [] then EmptyView else TodoList (todos (snd (onNext docs w))))"
  by (simp add: mount_run issued_def onNext_run newest_first_def sorted_wrt_map
        todo_of_doc_createdAt render_def)

text \<open>
  Claim C10 on a snapshot of two documents, the newer one first.
\<close>

theorem snapshot_order_preserved_witness:
  "newest_first date_le (map doc_data two_docs) \<and>
   newest_first date_le (todos (snd (onNext two_docs initial))) \<and>
   map (\<lambda>t. t ''createdAt'') (todos (snd (onNext two_docs initial))) =
     [Some (JDate 2000), Some (JDate 1000)]"
proof -
  have sorted: "newest_first date_le (map doc_data two_docs)"
    by (simp add: newest_first_def two_docs_def)
  have dates: "map (\<lambda>d. doc_data d ''createdAt'') two_docs = [Some (JDate 2000), Some (JDate 1000)]"
    by (simp add: two_docs_def)
  from snapshot_order_preserved [of initial two_docs date_le] sorted dates
  show ?thesis by simp
qed

text \<open>
  Claim C1 at a document whose data has a field \<^verbatim>\<open>id\<close>: in
  \<^verbatim>\<open>{ id: doc.id, ...doc.data() }\<close> the spread is written after \<^verbatim>\<open>id\<close>, so the object's
  \<^verbatim>\<open>id\<close> is the stored field (here \<^verbatim>\<open>b\<close>), not the document's id (\<^verbatim>\<open>a\<close>).
\<close>

theorem onNext_id_shadowed:
  "map doc_id shadowing = [[0x61]] \<and>
   map (\<lambda>t. t ''id'') (todos (snd (onNext shadowing initial))) = [Some (JStr [0x62])]"
  by (simp add: onNext_run shadowing_def todo_of_doc_def)

end
